theory Spec2Isabelle
  imports Main "HOL-Library.Word"
begin

section \<open>Go values\<close>

text \<open>
  A Go \<^verbatim>\<open>error\<close> returned by \<^verbatim>\<open>Future.Get\<close> is used by the workflow only through
  \<^verbatim>\<open>err.Error()\<close> and through \<^verbatim>\<open>fmt.Errorf("...: %w", err)\<close>, so an error is its message.
\<close>

datatype error = errors_New string

fun Error_text :: "error \<Rightarrow> string" where
  "Error_text (errors_New s) = s"

text \<open>\<^verbatim>\<open>fmt.Errorf(prefix + "%w", err)\<close>: the message of the wrapped error after the prefix.\<close>

definition Errorf_w :: "string \<Rightarrow> error \<Rightarrow> error" where
  "Errorf_w prefix err = errors_New (prefix @ Error_text err)"

text \<open>
  The dynamic content of an interface value (\<^verbatim>\<open>any\<close>). \<open>AnyNil\<close> is the nil interface;
  a slice and a map are \<open>None\<close> when they are nil, a pointer likewise. A \<^verbatim>\<open>float64\<close> is
  carried as its 64 bits, since the workflow never computes with it.
\<close>

datatype any =
    AnyNil
  | AnyBool bool
  | AnyInt int
  | AnyFloat64 "64 word"
  | AnyString string
  | AnySlice "any list option"
  | AnyArray "any list"
  | AnyMap "(any \<times> any) list option"
  | AnyStruct "(string \<times> any) list"
  | AnyPointer "any option"

text \<open>\<^verbatim>\<open>reflect.Kind\<close>.\<close>

datatype kind =
    reflect_Invalid | reflect_Bool
  | reflect_Int | reflect_Int8 | reflect_Int16 | reflect_Int32 | reflect_Int64
  | reflect_Uint | reflect_Uint8 | reflect_Uint16 | reflect_Uint32 | reflect_Uint64
  | reflect_Uintptr | reflect_Float32 | reflect_Float64
  | reflect_Complex64 | reflect_Complex128
  | reflect_Array | reflect_Chan | reflect_Func | reflect_Interface | reflect_Map
  | reflect_Pointer | reflect_Slice | reflect_String | reflect_Struct
  | reflect_UnsafePointer

text \<open>\<^verbatim>\<open>reflect.ValueOf(value).Kind()\<close>; the zero Value of a nil interface has kind Invalid.\<close>

fun Kind :: "any \<Rightarrow> kind" where
  "Kind AnyNil = reflect_Invalid"
| "Kind (AnyBool b) = reflect_Bool"
| "Kind (AnyInt i) = reflect_Int"
| "Kind (AnyFloat64 w) = reflect_Float64"
| "Kind (AnyString s) = reflect_String"
| "Kind (AnySlice xs) = reflect_Slice"
| "Kind (AnyArray xs) = reflect_Array"
| "Kind (AnyMap m) = reflect_Map"
| "Kind (AnyStruct fs) = reflect_Struct"
| "Kind (AnyPointer p) = reflect_Pointer"

text \<open>
  \<^verbatim>\<open>Value.Len()\<close> and \<^verbatim>\<open>Value.IsNil()\<close> panic outside the kinds they are made for:
  \<open>None\<close> is the panic. The length of a nil slice or map is 0; the length of a string
  is its number of bytes.
\<close>

fun Len :: "any \<Rightarrow> nat option" where
  "Len (AnyString s) = Some (length s)"
| "Len (AnySlice None) = Some 0"
| "Len (AnySlice (Some xs)) = Some (length xs)"
| "Len (AnyArray xs) = Some (length xs)"
| "Len (AnyMap None) = Some 0"
| "Len (AnyMap (Some m)) = Some (length m)"
| "Len (AnyPointer (Some (AnyArray xs))) = Some (length xs)"
| "Len v = None"

fun IsNil :: "any \<Rightarrow> bool option" where
  "IsNil (AnySlice xs) = Some (xs = None)"
| "IsNil (AnyMap m) = Some (m = None)"
| "IsNil (AnyPointer p) = Some (p = None)"
| "IsNil v = None"

section \<open>Step contracts (pipeline/activities)\<close>

record PipelineActivityMetadata =
  Workdir :: string

record GitCloneParams =
  Metadata :: PipelineActivityMetadata
  Remote :: string

record GitCloneResult =
  Metadata :: PipelineActivityMetadata

record GoDeployParams =
  Metadata :: PipelineActivityMetadata

text \<open>The field \<^verbatim>\<open>Error error\<close> is an interface value: \<open>AnyNil\<close> when it is nil.\<close>

record GoDeployResult =
  Success :: bool
  Error :: any

record GoTestParams =
  Metadata :: PipelineActivityMetadata
  Flags :: "string list"

record GoTestCLIOutput =
  Action :: string
  Package :: string
  Test :: string
  Elapsed :: "64 word"

record GoTestResult =
  Metadata :: PipelineActivityMetadata
  FailedTests :: "GoTestCLIOutput list"

record GoBuildParams =
  Metadata :: PipelineActivityMetadata
  Flags :: "string list"

record GoBuildResult =
  Metadata :: PipelineActivityMetadata
  FailedFiles :: "string list"

record GoModTidyParams =
  Metadata :: PipelineActivityMetadata

record GoModTidyResult =
  Metadata :: PipelineActivityMetadata
  FailedFiles :: "string list"

record GoGenerateParams =
  Metadata :: PipelineActivityMetadata
  Flags :: "string list"

record GoGenerateResult =
  Metadata :: PipelineActivityMetadata
  FailedFiles :: "string list"

record GolangCILintParams =
  Metadata :: PipelineActivityMetadata

record GolangCILintResult =
  Issues :: "string list"

record GoFmtParams =
  Metadata :: PipelineActivityMetadata

record GoFmtResult =
  Metadata :: PipelineActivityMetadata
  FailedFiles :: "string list"

record DeleteWorkdirParams =
  Metadata :: PipelineActivityMetadata






text \<open>
  Storing a typed slice in \<^verbatim>\<open>Details any\<close>: a \<^verbatim>\<open>[]string\<close> and a
  \<^verbatim>\<open>[]GoTestCLIOutput\<close> as interface values. The workflow stores a slice only after
  \<^verbatim>\<open>len(...) > 0\<close>, so the stored slice is never nil.
\<close>

definition any_strings :: "string list \<Rightarrow> any" where
  "any_strings xs = AnySlice (Some (map AnyString xs))"

definition any_GoTestCLIOutput :: "GoTestCLIOutput \<Rightarrow> any" where
  "any_GoTestCLIOutput t =
     AnyStruct [(''Action'', AnyString (Action t)), (''Package'', AnyString (Package t)),
                (''Test'', AnyString (Test t)), (''Elapsed'', AnyFloat64 (Elapsed t))]"

definition any_tests :: "GoTestCLIOutput list \<Rightarrow> any" where
  "any_tests ts = AnySlice (Some (map any_GoTestCLIOutput ts))"

section \<open>The workflow (pipeline/workflow)\<close>

record PipelineParams =
  GitURL :: string
  TestFlags :: "string list"
  BuildFlags :: "string list"
  GenerateFlags :: "string list"

record PipelineFailure =
  Activity :: string
  Details :: any

record PipelineResult =
  Failures :: "PipelineFailure list"

subsection \<open>isEmptyOrNil and hasErrors\<close>

definition isEmptyOrNil :: "any \<Rightarrow> bool" where
  "isEmptyOrNil value =
     (if value = AnyNil then True
      else (case Kind value of
              reflect_String \<Rightarrow> Len value = Some 0
            | reflect_Slice \<Rightarrow> Len value = Some 0 \<or> IsNil value = Some True
            | _ \<Rightarrow> False))"

text \<open>The loop of \<^verbatim>\<open>hasErrors\<close> over \<^verbatim>\<open>result.Failures\<close>, returning at the first hit.\<close>

fun hasErrors_loop :: "PipelineFailure list \<Rightarrow> bool" where
  "hasErrors_loop [] = False"
| "hasErrors_loop (failure # rest) =
     (if \<not> isEmptyOrNil (Details failure) then True else hasErrors_loop rest)"

definition hasErrors :: "PipelineResult \<Rightarrow> bool" where
  "hasErrors result = hasErrors_loop (Failures result)"

subsection \<open>The substrate: activity invocations, futures, the selector\<close>

text \<open>
  \<^verbatim>\<open>workflow.ExecuteActivity(ctx, pa.X, params)\<close> starts activity \<open>X\<close> with its parameters
  and returns a future. The invocations a run issues are recorded, in program order, in a
  trace, together with the futures the selector reports ready.
\<close>

datatype activity =
    GitClone GitCloneParams
  | GoTest GoTestParams
  | GoFmt GoFmtParams
  | GoModTidy GoModTidyParams
  | GoBuild GoBuildParams
  | GoGenerate GoGenerateParams
  | GolangCILint GolangCILintParams
  | GoDeploy GoDeployParams
  | DeleteWorkdir DeleteWorkdirParams

datatype event =
    ExecuteActivity activity
  | Selected string

text \<open>
  What the substrate gives back to one run: for each future, what \<^verbatim>\<open>Get\<close> returns once
  the retry policy is exhausted or the activity has succeeded (\<open>Inl\<close> the error, \<open>Inr\<close>
  the decoded result), and \<open>ready\<close>, the choice the selector makes at its \<open>i\<close>-th
  \<^verbatim>\<open>Select\<close> among the futures still pending, that is, the order in which the
  activities complete. \<^verbatim>\<open>fCleanup.Get(ctx, nil)\<close> decodes nothing: its outcome is the
  error, if any. For the deploy step the substrate holds what the activity returned,
  \<open>GoDeploy_returns\<close>; what \<^verbatim>\<open>fDeploy.Get\<close> makes of it is \<open>fDeploy\<close> below.
\<close>

record substrate =
  fClone :: "error + GitCloneResult"
  fGoTest :: "error + GoTestResult"
  fGoFmt :: "error + GoFmtResult"
  fGoModTidy :: "error + GoModTidyResult"
  fGoBuild :: "error + GoBuildResult"
  fGoGenerate :: "error + GoGenerateResult"
  fGolangCILint :: "error + GolangCILintResult"
  GoDeploy_returns :: "error + GoDeployResult"
  fCleanup :: "error option"
  ready :: "nat \<Rightarrow> nat"

text \<open>
  A result travels from the activity to the workflow as JSON (the client of
  \<^verbatim>\<open>temporal.go\<close> sets no data converter). The results of the fan-out steps are strings,
  numbers and slices and come back as they were sent. \<^verbatim>\<open>GoDeployResult\<close> has a field of
  the interface type \<^verbatim>\<open>error\<close>: a nil interface, pointer, slice or map is encoded as
  \<^verbatim>\<open>null\<close> and decoded as the nil error; any other value is encoded as a JSON value
  that cannot be decoded into the interface, and \<^verbatim>\<open>Get\<close> returns the decoding error.
\<close>

definition json_null :: "any \<Rightarrow> bool" where
  "json_null v = (v = AnyNil \<or> v = AnyPointer None \<or> v = AnySlice None \<or> v = AnyMap None)"

definition fDeploy :: "substrate \<Rightarrow> error + GoDeployResult" where
  "fDeploy env =
     (case GoDeploy_returns env of
        Inl err \<Rightarrow> Inl err
      | Inr r \<Rightarrow>
          if json_null (Error r) then Inr (r\<lparr>Error := AnyNil\<rparr>)
          else Inl (errors_New
            ''unable to decode: json: cannot unmarshal into Go struct field GoDeployResult.Error of type error''))"

text \<open>
  The selector holds the futures added to it, here by the name of their activity; every
  callback registered by the workflow has an empty body. \<^verbatim>\<open>Select\<close> takes one pending
  future that is ready, runs its callback and forgets it; with nothing pending it never
  returns (\<open>None\<close>).
\<close>

type_synonym selector = "string list"

definition NewSelector :: selector where
  "NewSelector = []"

definition AddFuture :: "selector \<Rightarrow> string \<Rightarrow> selector" where
  "AddFuture sel f = sel @ [f]"

definition Select :: "selector \<Rightarrow> nat \<Rightarrow> (string \<times> selector) option" where
  "Select sel c =
     (if sel = [] then None
      else (let i = c mod length sel in Some (sel ! i, take i sel @ drop (Suc i) sel)))"

text \<open>
  \<^verbatim>\<open>for i := 0; i < len(activities); i++ { selector.Select(ctx) }\<close>: the events of the
  loop, and whether it came to its end.
\<close>

fun select_loop :: "(nat \<Rightarrow> nat) \<Rightarrow> nat list \<Rightarrow> selector \<Rightarrow> event list \<times> bool" where
  "select_loop rdy [] sel = ([], True)"
| "select_loop rdy (i # is) sel =
     (case Select sel (rdy i) of
        None \<Rightarrow> ([], False)
      | Some (f, sel') \<Rightarrow>
          (let (evs, done) = select_loop rdy is sel' in (Selected f # evs, done)))"

subsection \<open>PipelineWorkflow\<close>

definition append_failure :: "PipelineResult \<Rightarrow> string \<Rightarrow> any \<Rightarrow> PipelineResult" where
  "append_failure result name details =
     result\<lparr>Failures := Failures result @ [\<lparr>Activity = name, Details = details\<rparr>]\<rparr>"

text \<open>
  The slice \<^verbatim>\<open>activities\<close>: the names, each with the invocation whose future the entry
  holds. The invocations are issued in the order of the literal.
\<close>

definition activities :: "PipelineActivityMetadata \<Rightarrow> PipelineParams \<Rightarrow> (string \<times> activity) list" where
  "activities metadata params =
     [(''GoTest'', GoTest \<lparr>GoTestParams.Metadata = metadata, GoTestParams.Flags = TestFlags params\<rparr>),
      (''GoFmt'', GoFmt \<lparr>GoFmtParams.Metadata = metadata\<rparr>),
      (''GoModTidy'', GoModTidy \<lparr>GoModTidyParams.Metadata = metadata\<rparr>),
      (''GoBuild'', GoBuild \<lparr>GoBuildParams.Metadata = metadata, GoBuildParams.Flags = BuildFlags params\<rparr>),
      (''GoGenerate'', GoGenerate \<lparr>GoGenerateParams.Metadata = metadata, GoGenerateParams.Flags = GenerateFlags params\<rparr>),
      (''GolangCILint'', GolangCILint \<lparr>GolangCILintParams.Metadata = metadata\<rparr>)]"

text \<open>
  One iteration of the loop "Process results": the \<^verbatim>\<open>switch activity.name\<close> decodes the
  future of the entry into the result type of that name and appends a failure when the
  decoded list is not empty; after the switch, a non-nil \<^verbatim>\<open>err\<close> appends a failure whose
  details are \<^verbatim>\<open>err.Error()\<close>. The future of an entry is read from the substrate under
  the entry's name. A name that matches no case leaves \<^verbatim>\<open>err\<close> nil.
\<close>

definition process_result :: "substrate \<Rightarrow> string \<Rightarrow> PipelineResult \<Rightarrow> PipelineResult" where
  "process_result env name result =
     (let (result1, err) =
        (if name = ''GoTest'' then
           (case fGoTest env of
              Inl e \<Rightarrow> (result, Some e)
            | Inr rTest \<Rightarrow>
                (if length (FailedTests rTest) > 0
                 then append_failure result name (any_tests (FailedTests rTest))
                 else result, None))
         else if name = ''GoFmt'' then
           (case fGoFmt env of
              Inl e \<Rightarrow> (result, Some e)
            | Inr rFmt \<Rightarrow>
                (if length (GoFmtResult.FailedFiles rFmt) > 0
                 then append_failure result name (any_strings (GoFmtResult.FailedFiles rFmt))
                 else result, None))
         else if name = ''GoModTidy'' then
           (case fGoModTidy env of
              Inl e \<Rightarrow> (result, Some e)
            | Inr rModTidy \<Rightarrow>
                (if length (GoModTidyResult.FailedFiles rModTidy) > 0
                 then append_failure result name (any_strings (GoModTidyResult.FailedFiles rModTidy))
                 else result, None))
         else if name = ''GoBuild'' then
           (case fGoBuild env of
              Inl e \<Rightarrow> (result, Some e)
            | Inr rBuild \<Rightarrow>
                (if length (GoBuildResult.FailedFiles rBuild) > 0
                 then append_failure result name (any_strings (GoBuildResult.FailedFiles rBuild))
                 else result, None))
         else if name = ''GoGenerate'' then
           (case fGoGenerate env of
              Inl e \<Rightarrow> (result, Some e)
            | Inr rGenerate \<Rightarrow>
                (if length (GoGenerateResult.FailedFiles rGenerate) > 0
                 then append_failure result name (any_strings (GoGenerateResult.FailedFiles rGenerate))
                 else result, None))
         else if name = ''GolangCILint'' then
           (case fGolangCILint env of
              Inl e \<Rightarrow> (result, Some e)
            | Inr rLint \<Rightarrow>
                (if length (Issues rLint) > 0
                 then append_failure result name (any_strings (Issues rLint))
                 else result, None))
         else (result, None))
      in (case err of
            Some e \<Rightarrow> append_failure result1 name (AnyString (Error_text e))
          | None \<Rightarrow> result1))"

text \<open>\<^verbatim>\<open>for _, activity := range activities\<close>, in the order of the slice.\<close>

fun process_results :: "substrate \<Rightarrow> (string \<times> activity) list \<Rightarrow> PipelineResult \<Rightarrow> PipelineResult" where
  "process_results env [] result = result"
| "process_results env (a # as) result = process_results env as (process_result env (fst a) result)"

text \<open>
  The end of the workflow: the clean-up of the directory. An error of
  \<^verbatim>\<open>DeleteWorkdir\<close> is returned in place of the result.
\<close>

definition cleanup ::
  "substrate \<Rightarrow> PipelineActivityMetadata \<Rightarrow> event list \<Rightarrow> PipelineResult
     \<Rightarrow> event list \<times> (error + PipelineResult) option" where
  "cleanup env metadata tr result =
     (let tr1 = tr @ [ExecuteActivity (DeleteWorkdir \<lparr>DeleteWorkdirParams.Metadata = metadata\<rparr>)]
      in (case fCleanup env of
            Some err \<Rightarrow> (tr1, Some (Inl (Errorf_w ''deleteWorkdir activity: '' err)))
          | None \<Rightarrow> (tr1, Some (Inr result))))"

text \<open>
  "If all checks pass, execute deploy", then the clean-up. An error of the deploy future
  returns at once.
\<close>

definition deploy_and_cleanup ::
  "substrate \<Rightarrow> PipelineActivityMetadata \<Rightarrow> event list \<Rightarrow> PipelineResult
     \<Rightarrow> event list \<times> (error + PipelineResult) option" where
  "deploy_and_cleanup env metadata tr result =
     (if \<not> hasErrors result then
        (let tr1 = tr @ [ExecuteActivity (GoDeploy \<lparr>GoDeployParams.Metadata = metadata\<rparr>)]
         in (case fDeploy env of
               Inl err \<Rightarrow> (tr1, Some (Inl (Errorf_w ''deploy activity: '' err)))
             | Inr rDeploy \<Rightarrow>
                 cleanup env metadata tr1
                   (if Error rDeploy \<noteq> AnyNil
                    then append_failure result ''Deploy'' (Error rDeploy)
                    else result)))
      else cleanup env metadata tr result)"

text \<open>
  The whole workflow. The result is the trace of the run and what the workflow returns:
  \<open>None\<close> when it never returns, \<open>Some (Inl err)\<close> for \<^verbatim>\<open>(nil, err)\<close> and
  \<open>Some (Inr result)\<close> for \<^verbatim>\<open>(result, nil)\<close>. The activity options and the debug print
  are left out.
\<close>

definition PipelineWorkflow ::
  "substrate \<Rightarrow> PipelineParams \<Rightarrow> event list \<times> (error + PipelineResult) option" where
  "PipelineWorkflow env params =
     (let result = \<lparr>Failures = []\<rparr>;
          tr0 = [ExecuteActivity (GitClone \<lparr>GitCloneParams.Metadata = \<lparr>Workdir = ''''\<rparr>,
                                          GitCloneParams.Remote = GitURL params\<rparr>)]
      in (case fClone env of
            Inl err \<Rightarrow> (tr0, Some (Inl (Errorf_w ''GitClone activity: '' err)))
          | Inr rClone \<Rightarrow>
              (let metadata = GitCloneResult.Metadata rClone;
                   acts = activities metadata params;
                   tr1 = tr0 @ map (\<lambda>a. ExecuteActivity (snd a)) acts;
                   sel = foldl (\<lambda>s a. AddFuture s (fst a)) NewSelector acts;
                   (evs, done) = select_loop (ready env) [0..<length acts] sel;
                   tr2 = tr1 @ evs
               in (if \<not> done then (tr2, None)
                   else deploy_and_cleanup env metadata tr2
                          (process_results env acts result)))))"

subsection \<open>The mocked substrates of the test file (pipeline/pipeline_test.go)\<close>

text \<open>
  \<^verbatim>\<open>TestPipelineWorkflow\<close> mocks \<^verbatim>\<open>GitClone\<close> (work directory \<^verbatim>\<open>/tmp/test\<close>) and
  \<^verbatim>\<open>DeleteWorkdir\<close> for every run; \<^verbatim>\<open>mockAllActivitiesSuccess\<close> returns the zero value of
  each result, \<^verbatim>\<open>mockActivitiesWithFailures\<close> one failure each for test, build and
  generate. The mocks resolve in the order they were issued.
\<close>

definition mockAllActivitiesSuccess :: substrate where
  "mockAllActivitiesSuccess =
     \<lparr>fClone = Inr \<lparr>GitCloneResult.Metadata = \<lparr>Workdir = ''/tmp/test''\<rparr>\<rparr>,
      fGoTest = Inr \<lparr>GoTestResult.Metadata = \<lparr>Workdir = ''''\<rparr>, FailedTests = []\<rparr>,
      fGoFmt = Inr \<lparr>GoFmtResult.Metadata = \<lparr>Workdir = ''''\<rparr>, GoFmtResult.FailedFiles = []\<rparr>,
      fGoModTidy = Inr \<lparr>GoModTidyResult.Metadata = \<lparr>Workdir = ''''\<rparr>, GoModTidyResult.FailedFiles = []\<rparr>,
      fGoBuild = Inr \<lparr>GoBuildResult.Metadata = \<lparr>Workdir = ''''\<rparr>, GoBuildResult.FailedFiles = []\<rparr>,
      fGoGenerate = Inr \<lparr>GoGenerateResult.Metadata = \<lparr>Workdir = ''''\<rparr>, GoGenerateResult.FailedFiles = []\<rparr>,
      fGolangCILint = Inr \<lparr>Issues = []\<rparr>,
      GoDeploy_returns = Inr \<lparr>Success = False, Error = AnyNil\<rparr>,
      fCleanup = None,
      ready = (\<lambda>i. 0)\<rparr>"

definition mockActivitiesWithFailures :: substrate where
  "mockActivitiesWithFailures =
     mockAllActivitiesSuccess
       \<lparr>fGoBuild := Inr \<lparr>GoBuildResult.Metadata = \<lparr>Workdir = ''''\<rparr>,
                          GoBuildResult.FailedFiles = [''main.go'']\<rparr>,
        fGoGenerate := Inr \<lparr>GoGenerateResult.Metadata = \<lparr>Workdir = ''''\<rparr>,
                             GoGenerateResult.FailedFiles = [''generated.go'']\<rparr>,
        fGoTest := Inr \<lparr>GoTestResult.Metadata = \<lparr>Workdir = ''''\<rparr>,
                         FailedTests = [\<lparr>Action = '''', Package = '''', Test = ''TestFailed'',
                                         Elapsed = 0\<rparr>]\<rparr>\<rparr>"

definition gitUrl :: string where
  "gitUrl = ''https://github.com/afanwang/go-sample.git''"

definition testParams :: PipelineParams where
  "testParams = \<lparr>GitURL = gitUrl, TestFlags = [], BuildFlags = [], GenerateFlags = []\<rparr>"

section \<open>Observations on a run\<close>

text \<open>The fixed order in which the fan-out steps are issued.\<close>

definition issue_order :: "string list" where
  "issue_order = [''GoTest'', ''GoFmt'', ''GoModTidy'', ''GoBuild'', ''GoGenerate'', ''GolangCILint'']"

text \<open>
  The outcome of a fan-out step, whatever its result type: the error of its handle, or
  the list its decoded result reports (failed tests, failed files, lint issues).
\<close>

definition step_outcome :: "substrate \<Rightarrow> string \<Rightarrow> error + any list" where
  "step_outcome env name =
     (if name = ''GoTest'' then
        (case fGoTest env of Inl e \<Rightarrow> Inl e | Inr r \<Rightarrow> Inr (map any_GoTestCLIOutput (FailedTests r)))
      else if name = ''GoFmt'' then
        (case fGoFmt env of Inl e \<Rightarrow> Inl e | Inr r \<Rightarrow> Inr (map AnyString (GoFmtResult.FailedFiles r)))
      else if name = ''GoModTidy'' then
        (case fGoModTidy env of Inl e \<Rightarrow> Inl e | Inr r \<Rightarrow> Inr (map AnyString (GoModTidyResult.FailedFiles r)))
      else if name = ''GoBuild'' then
        (case fGoBuild env of Inl e \<Rightarrow> Inl e | Inr r \<Rightarrow> Inr (map AnyString (GoBuildResult.FailedFiles r)))
      else if name = ''GoGenerate'' then
        (case fGoGenerate env of Inl e \<Rightarrow> Inl e | Inr r \<Rightarrow> Inr (map AnyString (GoGenerateResult.FailedFiles r)))
      else if name = ''GolangCILint'' then
        (case fGolangCILint env of Inl e \<Rightarrow> Inl e | Inr r \<Rightarrow> Inr (map AnyString (Issues r)))
      else Inr [])"

text \<open>The details a step's outcome carries, as they would be stored in a failure.\<close>

definition details_payload :: "substrate \<Rightarrow> string \<Rightarrow> any" where
  "details_payload env name =
     (case step_outcome env name of
        Inl e \<Rightarrow> AnyString (Error_text e)
      | Inr xs \<Rightarrow> AnySlice (Some xs))"

text \<open>A step failed: its handle resolved with an error, or its result reports something.\<close>

definition failed :: "substrate \<Rightarrow> string \<Rightarrow> bool" where
  "failed env name = (case step_outcome env name of Inl e \<Rightarrow> True | Inr xs \<Rightarrow> xs \<noteq> [])"

definition failure_of :: "substrate \<Rightarrow> string \<Rightarrow> PipelineFailure" where
  "failure_of env name = \<lparr>Activity = name, Details = details_payload env name\<rparr>"

text \<open>The failure list recorded by the time of the gating decision.\<close>

definition recorded :: "substrate \<Rightarrow> PipelineFailure list" where
  "recorded env = map (failure_of env) (filter (failed env) issue_order)"

text \<open>The activities invoked in a trace, in order.\<close>

fun invoked :: "event list \<Rightarrow> activity list" where
  "invoked [] = []"
| "invoked (ExecuteActivity a # tr) = a # invoked tr"
| "invoked (Selected f # tr) = invoked tr"

fun is_GoDeploy :: "activity \<Rightarrow> bool" where
  "is_GoDeploy (GoDeploy p) = True"
| "is_GoDeploy a = False"

fun is_DeleteWorkdir :: "activity \<Rightarrow> bool" where
  "is_DeleteWorkdir (DeleteWorkdir p) = True"
| "is_DeleteWorkdir a = False"

fun is_GitClone :: "activity \<Rightarrow> bool" where
  "is_GitClone (GitClone p) = True"
| "is_GitClone a = False"

definition is_fanout :: "activity \<Rightarrow> bool" where
  "is_fanout a = (\<not> is_GitClone a \<and> \<not> is_GoDeploy a \<and> \<not> is_DeleteWorkdir a)"

definition deploy_count :: "event list \<Rightarrow> nat" where
  "deploy_count tr = length (filter is_GoDeploy (invoked tr))"

definition cleanup_count :: "event list \<Rightarrow> nat" where
  "cleanup_count tr = length (filter is_DeleteWorkdir (invoked tr))"

text \<open>The metadata an invocation carries.\<close>

fun activity_metadata :: "activity \<Rightarrow> PipelineActivityMetadata" where
  "activity_metadata (GitClone p) = GitCloneParams.Metadata p"
| "activity_metadata (GoTest p) = GoTestParams.Metadata p"
| "activity_metadata (GoFmt p) = GoFmtParams.Metadata p"
| "activity_metadata (GoModTidy p) = GoModTidyParams.Metadata p"
| "activity_metadata (GoBuild p) = GoBuildParams.Metadata p"
| "activity_metadata (GoGenerate p) = GoGenerateParams.Metadata p"
| "activity_metadata (GolangCILint p) = GolangCILintParams.Metadata p"
| "activity_metadata (GoDeploy p) = GoDeployParams.Metadata p"
| "activity_metadata (DeleteWorkdir p) = DeleteWorkdirParams.Metadata p"

text \<open>A details payload that the gating decision does not count.\<close>

definition no_real_failure :: "any \<Rightarrow> bool" where
  "no_real_failure d = (d = AnyNil \<or> d = AnyString [] \<or> d = AnySlice None \<or> d = AnySlice (Some []))"

section \<open>Lemmas\<close>

subsection \<open>The emptiness test\<close>

lemma Len_defined: "Kind v = reflect_String \<or> Kind v = reflect_Slice \<Longrightarrow> Len v \<noteq> None"
  by (cases v rule: Len.cases) auto

lemma IsNil_defined: "Kind v = reflect_Slice \<Longrightarrow> IsNil v \<noteq> None"
  by (cases v) auto

lemma isEmptyOrNil_iff: "isEmptyOrNil v \<longleftrightarrow> no_real_failure v"
proof (cases v)
  case (AnySlice xs)
  then show ?thesis by (cases xs) (auto simp: isEmptyOrNil_def no_real_failure_def)
qed (auto simp: isEmptyOrNil_def no_real_failure_def)

lemma hasErrors_loop_iff: "hasErrors_loop fs \<longleftrightarrow> (\<exists>f \<in> set fs. \<not> isEmptyOrNil (Details f))"
  by (induction fs) auto

lemma hasErrors_filter:
  "hasErrors r \<longleftrightarrow> filter (\<lambda>f. \<not> no_real_failure (Details f)) (Failures r) \<noteq> []"
  by (simp add: hasErrors_def hasErrors_loop_iff isEmptyOrNil_iff filter_empty_conv)

subsection \<open>The classification loop\<close>

lemma Failures_append_failure:
  "Failures (append_failure r n d) = Failures r @ [\<lparr>Activity = n, Details = d\<rparr>]"
  by (simp add: append_failure_def)

lemma issue_order_cases:
  assumes "name \<in> set issue_order"
  shows "name = ''GoTest'' \<or> name = ''GoFmt'' \<or> name = ''GoModTidy''
    \<or> name = ''GoBuild'' \<or> name = ''GoGenerate'' \<or> name = ''GolangCILint''"
  using assms by (simp add: issue_order_def)

lemma process_result_GoTest:
  "Failures (process_result env ''GoTest'' r) =
     Failures r @ (if failed env ''GoTest'' then [failure_of env ''GoTest''] else [])"
  by (simp add: process_result_def failed_def failure_of_def details_payload_def
      step_outcome_def Failures_append_failure any_tests_def split: sum.split)

lemma process_result_GoFmt:
  "Failures (process_result env ''GoFmt'' r) =
     Failures r @ (if failed env ''GoFmt'' then [failure_of env ''GoFmt''] else [])"
  by (simp add: process_result_def failed_def failure_of_def details_payload_def
      step_outcome_def Failures_append_failure any_strings_def split: sum.split)

lemma process_result_GoModTidy:
  "Failures (process_result env ''GoModTidy'' r) =
     Failures r @ (if failed env ''GoModTidy'' then [failure_of env ''GoModTidy''] else [])"
  by (simp add: process_result_def failed_def failure_of_def details_payload_def
      step_outcome_def Failures_append_failure any_strings_def split: sum.split)

lemma process_result_GoBuild:
  "Failures (process_result env ''GoBuild'' r) =
     Failures r @ (if failed env ''GoBuild'' then [failure_of env ''GoBuild''] else [])"
  by (simp add: process_result_def failed_def failure_of_def details_payload_def
      step_outcome_def Failures_append_failure any_strings_def split: sum.split)

lemma process_result_GoGenerate:
  "Failures (process_result env ''GoGenerate'' r) =
     Failures r @ (if failed env ''GoGenerate'' then [failure_of env ''GoGenerate''] else [])"
  by (simp add: process_result_def failed_def failure_of_def details_payload_def
      step_outcome_def Failures_append_failure any_strings_def split: sum.split)

lemma process_result_GolangCILint:
  "Failures (process_result env ''GolangCILint'' r) =
     Failures r @ (if failed env ''GolangCILint'' then [failure_of env ''GolangCILint''] else [])"
  by (simp add: process_result_def failed_def failure_of_def details_payload_def
      step_outcome_def Failures_append_failure any_strings_def split: sum.split)

lemma process_result_step:
  assumes "name \<in> set issue_order"
  shows "Failures (process_result env name r) =
         Failures r @ (if failed env name then [failure_of env name] else [])"
  using issue_order_cases [OF assms]
    process_result_GoTest [of env r] process_result_GoFmt [of env r]
    process_result_GoModTidy [of env r] process_result_GoBuild [of env r]
    process_result_GoGenerate [of env r] process_result_GolangCILint [of env r]
  by (elim disjE) (simp_all only:)

lemma process_results_steps:
  "set (map fst acts) \<subseteq> set issue_order \<Longrightarrow>
   Failures (process_results env acts r) =
   Failures r @ map (failure_of env) (filter (failed env) (map fst acts))"
proof (induction acts arbitrary: r)
  case Nil
  then show ?case by simp
next
  case (Cons a acts)
  then show ?case by (simp add: process_result_step)
qed

lemma names_activities: "map fst (activities m p) = issue_order"
  by (simp add: activities_def issue_order_def)

lemma process_results_recorded:
  "process_results env (activities m p) \<lparr>Failures = []\<rparr> = \<lparr>Failures = recorded env\<rparr>"
proof -
  have "Failures (process_results env (activities m p) \<lparr>Failures = []\<rparr>) = recorded env"
    by (simp add: process_results_steps names_activities recorded_def)
  then show ?thesis
    by (cases "process_results env (activities m p) \<lparr>Failures = []\<rparr>") simp
qed

subsection \<open>The selector\<close>

lemma invoked_append: "invoked (tr @ tr') = invoked tr @ invoked tr'"
  by (induction tr rule: invoked.induct) simp_all

lemma invoked_ExecuteActivity: "invoked (map (\<lambda>a. ExecuteActivity (f a)) xs) = map f xs"
  by (induction xs) simp_all

lemma selector_of_activities:
  "foldl (\<lambda>s a. AddFuture s (fst a)) sel acts = sel @ map fst acts"
  by (induction acts arbitrary: sel) (simp_all add: AddFuture_def)

lemma Select_pending:
  assumes "sel \<noteq> []"
  shows "\<exists>f sel'. Select sel c = Some (f, sel') \<and> f \<in> set sel \<and> Suc (length sel') = length sel"
proof -
  let ?i = "c mod length sel"
  have i: "?i < length sel" using assms by simp
  then have "Suc (length (take ?i sel @ drop (Suc ?i) sel)) = length sel"
    by simp
  with assms i show ?thesis
    by (simp add: Select_def Let_def)
qed

lemma select_loop_done:
  "length is \<le> length sel \<Longrightarrow>
   snd (select_loop rdy is sel) \<and> invoked (fst (select_loop rdy is sel)) = []"
proof (induction "is" arbitrary: sel)
  case Nil
  then show ?case by simp
next
  case (Cons i "is")
  then have "sel \<noteq> []" by auto
  from Select_pending [OF this, of "rdy i"] obtain f sel'
    where s: "Select sel (rdy i) = Some (f, sel')" and l: "Suc (length sel') = length sel"
    by blast
  from Cons.prems l have "length is \<le> length sel'" by simp
  from Cons.IH [OF this] s show ?case
    by (simp add: case_prod_unfold)
qed

subsection \<open>Deploy, clean-up and the whole workflow\<close>

lemma fst_cleanup:
  "fst (cleanup env m tr r) = tr @ [ExecuteActivity (DeleteWorkdir \<lparr>DeleteWorkdirParams.Metadata = m\<rparr>)]"
  by (simp add: cleanup_def Let_def split: option.split)

lemma snd_cleanup:
  "snd (cleanup env m tr r) =
     Some (case fCleanup env of Some e \<Rightarrow> Inl (Errorf_w ''deleteWorkdir activity: '' e) | None \<Rightarrow> Inr r)"
  by (simp add: cleanup_def Let_def split: option.split)

lemma deploy_and_cleanup_blocked:
  "hasErrors r \<Longrightarrow> deploy_and_cleanup env m tr r = cleanup env m tr r"
  by (simp add: deploy_and_cleanup_def)

lemma deploy_and_cleanup_Inl:
  "\<not> hasErrors r \<Longrightarrow> fDeploy env = Inl e \<Longrightarrow>
   deploy_and_cleanup env m tr r =
     (tr @ [ExecuteActivity (GoDeploy \<lparr>GoDeployParams.Metadata = m\<rparr>)],
      Some (Inl (Errorf_w ''deploy activity: '' e)))"
  by (simp add: deploy_and_cleanup_def)

lemma deploy_and_cleanup_Inr:
  "\<not> hasErrors r \<Longrightarrow> fDeploy env = Inr d \<Longrightarrow>
   deploy_and_cleanup env m tr r =
     cleanup env m (tr @ [ExecuteActivity (GoDeploy \<lparr>GoDeployParams.Metadata = m\<rparr>)])
       (if Error d \<noteq> AnyNil then append_failure r ''Deploy'' (Error d) else r)"
  by (simp add: deploy_and_cleanup_def)

lemma invoked_deploy_and_cleanup:
  "invoked (fst (deploy_and_cleanup env m tr r)) =
     invoked tr
     @ (if hasErrors r then [] else [GoDeploy \<lparr>GoDeployParams.Metadata = m\<rparr>])
     @ (if \<not> hasErrors r \<and> isl (fDeploy env) then []
        else [DeleteWorkdir \<lparr>DeleteWorkdirParams.Metadata = m\<rparr>])"
proof (cases "hasErrors r")
  case True
  then show ?thesis
    by (simp add: deploy_and_cleanup_blocked fst_cleanup invoked_append)
next
  case False
  then show ?thesis
    by (cases "fDeploy env")
      (simp_all add: deploy_and_cleanup_Inl deploy_and_cleanup_Inr fst_cleanup invoked_append)
qed

lemma snd_deploy_and_cleanup:
  "snd (deploy_and_cleanup env m tr r) =
     Some (if hasErrors r then
             (case fCleanup env of Some e \<Rightarrow> Inl (Errorf_w ''deleteWorkdir activity: '' e) | None \<Rightarrow> Inr r)
           else (case fDeploy env of
                   Inl e \<Rightarrow> Inl (Errorf_w ''deploy activity: '' e)
                 | Inr d \<Rightarrow>
                     (case fCleanup env of
                        Some e \<Rightarrow> Inl (Errorf_w ''deleteWorkdir activity: '' e)
                      | None \<Rightarrow> Inr (if Error d \<noteq> AnyNil
                                       then append_failure r ''Deploy'' (Error d) else r))))"
proof (cases "hasErrors r")
  case True
  then show ?thesis
    by (simp add: deploy_and_cleanup_blocked snd_cleanup)
next
  case False
  then show ?thesis
    by (cases "fDeploy env")
      (simp_all add: deploy_and_cleanup_Inl deploy_and_cleanup_Inr snd_cleanup)
qed

lemma PipelineWorkflow_Inl:
  "fClone env = Inl err \<Longrightarrow>
   PipelineWorkflow env params =
     ([ExecuteActivity (GitClone \<lparr>GitCloneParams.Metadata = \<lparr>Workdir = ''''\<rparr>,
                                  GitCloneParams.Remote = GitURL params\<rparr>)],
      Some (Inl (Errorf_w ''GitClone activity: '' err)))"
  by (simp add: PipelineWorkflow_def)

lemma PipelineWorkflow_Inr:
  assumes "fClone env = Inr rClone"
  shows "\<exists>evs. invoked evs = [] \<and>
     PipelineWorkflow env params =
       deploy_and_cleanup env (GitCloneResult.Metadata rClone)
         (ExecuteActivity (GitClone \<lparr>GitCloneParams.Metadata = \<lparr>Workdir = ''''\<rparr>,
                                     GitCloneParams.Remote = GitURL params\<rparr>)
          # map (\<lambda>a. ExecuteActivity (snd a)) (activities (GitCloneResult.Metadata rClone) params)
          @ evs)
         \<lparr>Failures = recorded env\<rparr>"
proof -
  let ?acts = "activities (GitCloneResult.Metadata rClone) params"
  let ?sel = "foldl (\<lambda>s a. AddFuture s (fst a)) NewSelector ?acts"
  let ?loop = "select_loop (ready env) [0..<length ?acts] ?sel"
  have "length [0..<length ?acts] \<le> length ?sel"
    by (simp add: selector_of_activities)
  from select_loop_done [OF this]
  have fin: "snd ?loop" and quiet: "invoked (fst ?loop) = []"
    by simp_all
  have "PipelineWorkflow env params =
       deploy_and_cleanup env (GitCloneResult.Metadata rClone)
         (ExecuteActivity (GitClone \<lparr>GitCloneParams.Metadata = \<lparr>Workdir = ''''\<rparr>,
                                     GitCloneParams.Remote = GitURL params\<rparr>)
          # map (\<lambda>a. ExecuteActivity (snd a)) ?acts @ fst ?loop)
         \<lparr>Failures = recorded env\<rparr>"
    using assms fin
    by (simp add: PipelineWorkflow_def Let_def case_prod_unfold process_results_recorded)
  with quiet show ?thesis by blast
qed

lemma invoked_PipelineWorkflow:
  assumes "fClone env = Inr rClone"
  shows "invoked (fst (PipelineWorkflow env params)) =
     GitClone \<lparr>GitCloneParams.Metadata = \<lparr>Workdir = ''''\<rparr>, GitCloneParams.Remote = GitURL params\<rparr>
     # map snd (activities (GitCloneResult.Metadata rClone) params)
     @ (if hasErrors \<lparr>Failures = recorded env\<rparr> then []
        else [GoDeploy \<lparr>GoDeployParams.Metadata = GitCloneResult.Metadata rClone\<rparr>])
     @ (if \<not> hasErrors \<lparr>Failures = recorded env\<rparr> \<and> isl (fDeploy env) then []
        else [DeleteWorkdir \<lparr>DeleteWorkdirParams.Metadata = GitCloneResult.Metadata rClone\<rparr>])"
proof -
  from PipelineWorkflow_Inr [OF assms, of params] obtain evs where
    "invoked evs = []" and
    "PipelineWorkflow env params =
       deploy_and_cleanup env (GitCloneResult.Metadata rClone)
         (ExecuteActivity (GitClone \<lparr>GitCloneParams.Metadata = \<lparr>Workdir = ''''\<rparr>,
                                     GitCloneParams.Remote = GitURL params\<rparr>)
          # map (\<lambda>a. ExecuteActivity (snd a)) (activities (GitCloneResult.Metadata rClone) params)
          @ evs)
         \<lparr>Failures = recorded env\<rparr>"
    by blast
  then show ?thesis
    by (simp add: invoked_deploy_and_cleanup invoked_append invoked_ExecuteActivity)
qed

lemma snd_PipelineWorkflow:
  assumes "fClone env = Inr rClone"
  shows "snd (PipelineWorkflow env params) =
           snd (deploy_and_cleanup env m tr \<lparr>Failures = recorded env\<rparr>)"
proof -
  from PipelineWorkflow_Inr [OF assms, of params] obtain tr' where
    "PipelineWorkflow env params =
       deploy_and_cleanup env (GitCloneResult.Metadata rClone) tr' \<lparr>Failures = recorded env\<rparr>"
    by blast
  then show ?thesis
    by (simp add: snd_deploy_and_cleanup)
qed

lemma PipelineWorkflow_returns: "\<exists>ret. snd (PipelineWorkflow env params) = Some ret"
proof (cases "fClone env")
  case (Inl err)
  then show ?thesis by (simp add: PipelineWorkflow_Inl)
next
  case (Inr rClone)
  have "snd (PipelineWorkflow env params) =
          snd (deploy_and_cleanup env (GitCloneResult.Metadata rClone) [] \<lparr>Failures = recorded env\<rparr>)"
    by (rule snd_PipelineWorkflow [OF Inr])
  then show ?thesis by (simp add: snd_deploy_and_cleanup)
qed

subsection \<open>The recorded failures\<close>

lemma hasErrors_recorded:
  "hasErrors \<lparr>Failures = recorded env\<rparr> \<longleftrightarrow>
     (\<exists>n \<in> set issue_order. failed env n \<and> \<not> no_real_failure (details_payload env n))"
  by (auto simp: hasErrors_def hasErrors_loop_iff recorded_def isEmptyOrNil_iff failure_of_def)

lemma failed_payload:
  "failed env n \<Longrightarrow> no_real_failure (details_payload env n) \<longleftrightarrow>
     (\<exists>e. step_outcome env n = Inl e \<and> Error_text e = [])"
  by (auto simp: failed_def details_payload_def no_real_failure_def split: sum.splits)

lemma Activity_failure_of: "Activity (failure_of env n) = n"
  by (simp add: failure_of_def)

lemma names_recorded: "map Activity (recorded env) = filter (failed env) issue_order"
  by (simp add: recorded_def comp_def Activity_failure_of)

lemma distinct_issue_order: "distinct issue_order"
  by (simp add: issue_order_def)

lemma filter_eq_distinct:
  "distinct xs \<Longrightarrow> filter (\<lambda>x. x = n) xs = (if n \<in> set xs then [n] else [])"
  by (induction xs) auto

lemma filter_recorded:
  "filter (\<lambda>f. Activity f = n) (recorded env) =
     (if n \<in> set issue_order \<and> failed env n then [failure_of env n] else [])"
proof -
  have "filter (\<lambda>f. Activity f = n) (recorded env) =
          map (failure_of env) (filter (failed env) (filter (\<lambda>x. x = n) issue_order))"
    by (simp add: recorded_def filter_map comp_def Activity_failure_of conj_commute)
  also have "filter (\<lambda>x. x = n) issue_order = (if n \<in> set issue_order then [n] else [])"
    using distinct_issue_order by (rule filter_eq_distinct)
  finally show ?thesis by simp
qed

lemma step_outcome_ready [simp]: "step_outcome (env\<lparr>ready := rdy\<rparr>) = step_outcome env"
  by (rule ext) (simp add: step_outcome_def)

lemma recorded_ready [simp]: "recorded (env\<lparr>ready := rdy\<rparr>) = recorded env"
  by (simp add: recorded_def failure_of_def failed_def details_payload_def cong: filter_cong)

subsection \<open>What a run invokes and returns\<close>

lemma fDeploy_Error_nil: "fDeploy env = Inr d \<Longrightarrow> Error d = AnyNil"
  by (auto simp: fDeploy_def split: sum.splits if_splits)

lemma fDeploy_Inl: "GoDeploy_returns env = Inl err \<Longrightarrow> fDeploy env = Inl err"
  by (simp add: fDeploy_def)

lemma fDeploy_null:
  "GoDeploy_returns env = Inr r \<Longrightarrow> json_null (Error r) \<Longrightarrow> fDeploy env = Inr (r\<lparr>Error := AnyNil\<rparr>)"
  by (simp add: fDeploy_def)

lemma fDeploy_not_null:
  "GoDeploy_returns env = Inr r \<Longrightarrow> \<not> json_null (Error r) \<Longrightarrow> isl (fDeploy env)"
  by (simp add: fDeploy_def)

lemma fDeploy_ready [simp]: "fDeploy (env\<lparr>ready := rdy\<rparr>) = fDeploy env"
  by (simp add: fDeploy_def)

lemma deploy_count_PipelineWorkflow:
  assumes "fClone env = Inr rClone"
  shows "deploy_count (fst (PipelineWorkflow env params)) =
           (if hasErrors \<lparr>Failures = recorded env\<rparr> then 0 else 1)"
  by (simp add: invoked_PipelineWorkflow [OF assms] deploy_count_def activities_def)

lemma cleanup_count_PipelineWorkflow:
  assumes "fClone env = Inr rClone"
  shows "cleanup_count (fst (PipelineWorkflow env params)) =
           (if \<not> hasErrors \<lparr>Failures = recorded env\<rparr> \<and> isl (fDeploy env) then 0 else 1)"
  by (simp add: invoked_PipelineWorkflow [OF assms] cleanup_count_def activities_def)

lemma last_invoked_PipelineWorkflow:
  assumes "fClone env = Inr rClone"
    and "hasErrors \<lparr>Failures = recorded env\<rparr> \<or> \<not> isl (fDeploy env)"
  shows "last (invoked (fst (PipelineWorkflow env params))) =
           DeleteWorkdir \<lparr>DeleteWorkdirParams.Metadata = GitCloneResult.Metadata rClone\<rparr>"
  using assms(2) by (auto simp: invoked_PipelineWorkflow [OF assms(1)])

lemma returned_PipelineWorkflow:
  assumes "fClone env = Inr rClone"
  shows "snd (PipelineWorkflow env params) =
     Some (if \<not> hasErrors \<lparr>Failures = recorded env\<rparr> \<and> isl (fDeploy env)
           then Inl (Errorf_w ''deploy activity: '' (projl (fDeploy env)))
           else (case fCleanup env of
                   Some e \<Rightarrow> Inl (Errorf_w ''deleteWorkdir activity: '' e)
                 | None \<Rightarrow> Inr \<lparr>Failures = recorded env\<rparr>))"
proof -
  have "snd (PipelineWorkflow env params) =
          snd (deploy_and_cleanup env (GitCloneResult.Metadata rClone) []
                 \<lparr>Failures = recorded env\<rparr>)"
    by (rule snd_PipelineWorkflow [OF assms])
  then show ?thesis
    by (cases "fDeploy env")
      (auto simp: snd_deploy_and_cleanup fDeploy_Error_nil split: option.split)
qed

lemma report_PipelineWorkflow:
  assumes "snd (PipelineWorkflow env params) = Some (Inr report)"
  shows "report = \<lparr>Failures = recorded env\<rparr> \<and> (\<exists>rClone. fClone env = Inr rClone)"
proof (cases "fClone env")
  case (Inl err)
  with assms show ?thesis by (simp add: PipelineWorkflow_Inl)
next
  case (Inr rClone)
  from assms show ?thesis
    unfolding returned_PipelineWorkflow [OF Inr]
    by (auto simp: Inr split: if_splits option.splits)
qed

lemma snd_PipelineWorkflow_ready:
  "snd (PipelineWorkflow (env\<lparr>ready := rdy\<rparr>) params) = snd (PipelineWorkflow env params)"
proof (cases "fClone env")
  case (Inl err)
  then have "fClone (env\<lparr>ready := rdy\<rparr>) = Inl err" by simp
  with Inl show ?thesis by (simp add: PipelineWorkflow_Inl)
next
  case (Inr rClone)
  then have r: "fClone (env\<lparr>ready := rdy\<rparr>) = Inr rClone" by simp
  show ?thesis
    unfolding returned_PipelineWorkflow [OF Inr] returned_PipelineWorkflow [OF r]
    by (simp split: option.split)
qed

subsection \<open>The mocked substrates\<close>

lemma step_outcome_mockAllActivitiesSuccess:
  "n \<in> set issue_order \<Longrightarrow> step_outcome mockAllActivitiesSuccess n = Inr []"
  by (simp add: issue_order_def step_outcome_def mockAllActivitiesSuccess_def)

lemma step_outcome_GoDeploy_returns [simp]:
  "step_outcome (env\<lparr>GoDeploy_returns := d\<rparr>) = step_outcome env"
  by (rule ext) (simp add: step_outcome_def)

lemma failed_mockAllActivitiesSuccess:
  "n \<in> set issue_order \<Longrightarrow> \<not> failed (mockAllActivitiesSuccess\<lparr>GoDeploy_returns := d\<rparr>) n"
  by (simp add: failed_def step_outcome_mockAllActivitiesSuccess)

lemma recorded_mockAllActivitiesSuccess:
  "recorded (mockAllActivitiesSuccess\<lparr>GoDeploy_returns := d\<rparr>) = []"
  by (simp add: recorded_def filter_empty_conv failed_mockAllActivitiesSuccess)

lemma fClone_mockAllActivitiesSuccess:
  "fClone (mockAllActivitiesSuccess\<lparr>GoDeploy_returns := d\<rparr>) =
     Inr \<lparr>GitCloneResult.Metadata = \<lparr>Workdir = ''/tmp/test''\<rparr>\<rparr>"
  by (simp add: mockAllActivitiesSuccess_def)

lemma fCleanup_mockAllActivitiesSuccess:
  "fCleanup (mockAllActivitiesSuccess\<lparr>GoDeploy_returns := d\<rparr>) = None"
  by (simp add: mockAllActivitiesSuccess_def)

lemma fDeploy_mockAllActivitiesSuccess:
  "fDeploy mockAllActivitiesSuccess = Inr \<lparr>Success = False, Error = AnyNil\<rparr>"
  by (simp add: fDeploy_def json_null_def mockAllActivitiesSuccess_def)

lemma hasErrors_Nil: "\<not> hasErrors \<lparr>Failures = []\<rparr>"
  by (simp add: hasErrors_def)

lemma recorded_details:
  "f \<in> set (recorded env) \<Longrightarrow>
     (\<exists>s. Details f = AnyString s) \<or> (\<exists>xs. xs \<noteq> [] \<and> Details f = AnySlice (Some xs))"
  by (auto simp: recorded_def failure_of_def details_payload_def failed_def split: sum.splits)

subsection \<open>The lint activity\<close>


section \<open>Properties of the specification\<close>

text \<open>
  C10. The emptiness test used for gating treats only nil, zero-length strings, and nil
  or zero-length slices as empty. A payload of any other kind (a number, a struct, a map,
  a boolean) is never empty for it, so a recorded failure that carries such a payload makes
  \<open>hasErrors\<close> true and the deploy step is not issued, even when the payload is logically
  empty, as an empty map is.
\<close>

theorem isEmptyOrNil_only_nil_string_slice:
  "(isEmptyOrNil v \<longleftrightarrow>
      v = AnyNil \<or> v = AnyString [] \<or> v = AnySlice None \<or> v = AnySlice (Some []))
   \<and> (v \<noteq> AnyNil \<and> Kind v \<noteq> reflect_String \<and> Kind v \<noteq> reflect_Slice \<longrightarrow> \<not> isEmptyOrNil v)
   \<and> (f \<in> set (Failures result) \<and> Details f \<noteq> AnyNil
        \<and> Kind (Details f) \<noteq> reflect_String \<and> Kind (Details f) \<noteq> reflect_Slice
      \<longrightarrow> hasErrors result
          \<and> deploy_count (fst (deploy_and_cleanup env m tr result)) = deploy_count tr)"
proof (intro conjI impI)
  show "isEmptyOrNil v \<longleftrightarrow>
      v = AnyNil \<or> v = AnyString [] \<or> v = AnySlice None \<or> v = AnySlice (Some [])"
    by (simp add: isEmptyOrNil_iff no_real_failure_def)
next
  assume "v \<noteq> AnyNil \<and> Kind v \<noteq> reflect_String \<and> Kind v \<noteq> reflect_Slice"
  then show "\<not> isEmptyOrNil v"
    by (auto simp: isEmptyOrNil_iff no_real_failure_def)
next
  assume a: "f \<in> set (Failures result) \<and> Details f \<noteq> AnyNil
        \<and> Kind (Details f) \<noteq> reflect_String \<and> Kind (Details f) \<noteq> reflect_Slice"
  then have "\<not> isEmptyOrNil (Details f)"
    by (auto simp: isEmptyOrNil_iff no_real_failure_def)
  with a show h: "hasErrors result"
    by (auto simp: hasErrors_def hasErrors_loop_iff)
  then show "deploy_count (fst (deploy_and_cleanup env m tr result)) = deploy_count tr"
    by (simp add: deploy_count_def invoked_deploy_and_cleanup)
qed

theorem isEmptyOrNil_only_nil_string_slice_witness:
  "\<not> isEmptyOrNil (AnyMap (Some []))
   \<and> hasErrors \<lparr>Failures = [\<lparr>Activity = ''GoBuild'', Details = AnyMap (Some [])\<rparr>]\<rparr>
   \<and> deploy_count (fst (deploy_and_cleanup mockAllActivitiesSuccess \<lparr>Workdir = ''/tmp/test''\<rparr> []
        \<lparr>Failures = [\<lparr>Activity = ''GoBuild'', Details = AnyMap (Some [])\<rparr>]\<rparr>)) = 0"
  using isEmptyOrNil_only_nil_string_slice
    [of "AnyMap (Some [])" "\<lparr>Activity = ''GoBuild'', Details = AnyMap (Some [])\<rparr>"
        "\<lparr>Failures = [\<lparr>Activity = ''GoBuild'', Details = AnyMap (Some [])\<rparr>]\<rparr>"
        mockAllActivitiesSuccess "\<lparr>Workdir = ''/tmp/test''\<rparr>" "[]"]
  by (simp add: deploy_count_def)

text \<open>
  C7. When the clone handle resolves with an error, the workflow returns that error
  (wrapped) and no result; the clone is the only activity it has issued: no fan-out step,
  no deploy, no clean-up.
\<close>

theorem clone_error_is_fatal:
  assumes "fClone env = Inl err"
  shows "snd (PipelineWorkflow env params) = Some (Inl (Errorf_w ''GitClone activity: '' err))
     \<and> invoked (fst (PipelineWorkflow env params)) =
         [GitClone \<lparr>GitCloneParams.Metadata = \<lparr>Workdir = ''''\<rparr>,
                    GitCloneParams.Remote = GitURL params\<rparr>]
     \<and> filter is_fanout (invoked (fst (PipelineWorkflow env params))) = []
     \<and> deploy_count (fst (PipelineWorkflow env params)) = 0
     \<and> cleanup_count (fst (PipelineWorkflow env params)) = 0"
  by (simp add: PipelineWorkflow_Inl [OF assms] is_fanout_def deploy_count_def cleanup_count_def)

theorem clone_error_is_fatal_witness:
  "fClone (mockAllActivitiesSuccess\<lparr>fClone := Inl (errors_New ''exit status 128'')\<rparr>)
     = Inl (errors_New ''exit status 128'')
   \<and> snd (PipelineWorkflow (mockAllActivitiesSuccess\<lparr>fClone := Inl (errors_New ''exit status 128'')\<rparr>)
            testParams)
     = Some (Inl (errors_New ''GitClone activity: exit status 128''))
   \<and> cleanup_count (fst (PipelineWorkflow
        (mockAllActivitiesSuccess\<lparr>fClone := Inl (errors_New ''exit status 128'')\<rparr>) testParams)) = 0"
proof -
  have h: "fClone (mockAllActivitiesSuccess\<lparr>fClone := Inl (errors_New ''exit status 128'')\<rparr>)
     = Inl (errors_New ''exit status 128'')"
    by simp
  show ?thesis
    using h clone_error_is_fatal [OF h, of testParams]
    by (simp add: Errorf_w_def)
qed

text \<open>
  C9 (as stated). After a successful clone the metadata of the clone result would be
  passed to the six fan-out steps, to the deploy step when invoked, and to the clean-up.
  On the run whose deploy handle resolves with an error the activities invoked are the
  clone, the six fan-out steps and the deploy step: no clean-up is invoked, so the
  clean-up is never given the work directory.
\<close>

theorem metadata_not_passed_to_cleanup_counterexample:
  "fClone (mockAllActivitiesSuccess\<lparr>GoDeploy_returns := Inl (errors_New ''context deadline exceeded'')\<rparr>)
     = Inr \<lparr>GitCloneResult.Metadata = \<lparr>Workdir = ''/tmp/test''\<rparr>\<rparr>
   \<and> invoked (fst (PipelineWorkflow
         (mockAllActivitiesSuccess\<lparr>GoDeploy_returns := Inl (errors_New ''context deadline exceeded'')\<rparr>)
         testParams))
       = [GitClone \<lparr>GitCloneParams.Metadata = \<lparr>Workdir = ''''\<rparr>, GitCloneParams.Remote = gitUrl\<rparr>,
          GoTest \<lparr>GoTestParams.Metadata = \<lparr>Workdir = ''/tmp/test''\<rparr>, GoTestParams.Flags = []\<rparr>,
          GoFmt \<lparr>GoFmtParams.Metadata = \<lparr>Workdir = ''/tmp/test''\<rparr>\<rparr>,
          GoModTidy \<lparr>GoModTidyParams.Metadata = \<lparr>Workdir = ''/tmp/test''\<rparr>\<rparr>,
          GoBuild \<lparr>GoBuildParams.Metadata = \<lparr>Workdir = ''/tmp/test''\<rparr>, GoBuildParams.Flags = []\<rparr>,
          GoGenerate \<lparr>GoGenerateParams.Metadata = \<lparr>Workdir = ''/tmp/test''\<rparr>,
                      GoGenerateParams.Flags = []\<rparr>,
          GolangCILint \<lparr>GolangCILintParams.Metadata = \<lparr>Workdir = ''/tmp/test''\<rparr>\<rparr>,
          GoDeploy \<lparr>GoDeployParams.Metadata = \<lparr>Workdir = ''/tmp/test''\<rparr>\<rparr>]
   \<and> DeleteWorkdir \<lparr>DeleteWorkdirParams.Metadata = \<lparr>Workdir = ''/tmp/test''\<rparr>\<rparr>
       \<notin> set (invoked (fst (PipelineWorkflow
         (mockAllActivitiesSuccess\<lparr>GoDeploy_returns := Inl (errors_New ''context deadline exceeded'')\<rparr>)
         testParams)))"
proof -
  let ?env = "mockAllActivitiesSuccess\<lparr>GoDeploy_returns := Inl (errors_New ''context deadline exceeded'')\<rparr>"
  have d: "isl (fDeploy ?env)"
    by (simp add: fDeploy_def)
  have inv: "invoked (fst (PipelineWorkflow ?env testParams))
       = [GitClone \<lparr>GitCloneParams.Metadata = \<lparr>Workdir = ''''\<rparr>, GitCloneParams.Remote = gitUrl\<rparr>,
          GoTest \<lparr>GoTestParams.Metadata = \<lparr>Workdir = ''/tmp/test''\<rparr>, GoTestParams.Flags = []\<rparr>,
          GoFmt \<lparr>GoFmtParams.Metadata = \<lparr>Workdir = ''/tmp/test''\<rparr>\<rparr>,
          GoModTidy \<lparr>GoModTidyParams.Metadata = \<lparr>Workdir = ''/tmp/test''\<rparr>\<rparr>,
          GoBuild \<lparr>GoBuildParams.Metadata = \<lparr>Workdir = ''/tmp/test''\<rparr>, GoBuildParams.Flags = []\<rparr>,
          GoGenerate \<lparr>GoGenerateParams.Metadata = \<lparr>Workdir = ''/tmp/test''\<rparr>,
                      GoGenerateParams.Flags = []\<rparr>,
          GolangCILint \<lparr>GolangCILintParams.Metadata = \<lparr>Workdir = ''/tmp/test''\<rparr>\<rparr>,
          GoDeploy \<lparr>GoDeployParams.Metadata = \<lparr>Workdir = ''/tmp/test''\<rparr>\<rparr>]"
    using d
    by (simp add: invoked_PipelineWorkflow [OF fClone_mockAllActivitiesSuccess]
        recorded_mockAllActivitiesSuccess hasErrors_Nil activities_def testParams_def)
  show ?thesis
    unfolding inv by (simp add: fClone_mockAllActivitiesSuccess)
qed

text \<open>
  C9 (amended). When the clone succeeds, the activities a run invokes after the clone
  are, in this order: the six fan-out steps, each with the metadata of the clone result
  and its own flags; the deploy step with that metadata, exactly when the recorded
  failures do not block it; and the clean-up with that metadata, unless the deploy step
  was invoked and its handle resolved with an error, in which case no clean-up is invoked.
  Nothing else is invoked, and no invocation carries another work directory.
\<close>

theorem metadata_shared_by_all_steps:
  assumes "fClone env = Inr rClone"
  shows "invoked (fst (PipelineWorkflow env params)) =
     [GitClone \<lparr>GitCloneParams.Metadata = \<lparr>Workdir = ''''\<rparr>, GitCloneParams.Remote = GitURL params\<rparr>,
      GoTest \<lparr>GoTestParams.Metadata = GitCloneResult.Metadata rClone,
              GoTestParams.Flags = TestFlags params\<rparr>,
      GoFmt \<lparr>GoFmtParams.Metadata = GitCloneResult.Metadata rClone\<rparr>,
      GoModTidy \<lparr>GoModTidyParams.Metadata = GitCloneResult.Metadata rClone\<rparr>,
      GoBuild \<lparr>GoBuildParams.Metadata = GitCloneResult.Metadata rClone,
               GoBuildParams.Flags = BuildFlags params\<rparr>,
      GoGenerate \<lparr>GoGenerateParams.Metadata = GitCloneResult.Metadata rClone,
                  GoGenerateParams.Flags = GenerateFlags params\<rparr>,
      GolangCILint \<lparr>GolangCILintParams.Metadata = GitCloneResult.Metadata rClone\<rparr>]
     @ (if hasErrors (process_results env (activities (GitCloneResult.Metadata rClone) params)
                        \<lparr>Failures = []\<rparr>)
        then [] else [GoDeploy \<lparr>GoDeployParams.Metadata = GitCloneResult.Metadata rClone\<rparr>])
     @ (if \<not> hasErrors (process_results env (activities (GitCloneResult.Metadata rClone) params)
                          \<lparr>Failures = []\<rparr>) \<and> isl (fDeploy env)
        then [] else [DeleteWorkdir \<lparr>DeleteWorkdirParams.Metadata = GitCloneResult.Metadata rClone\<rparr>])"
  unfolding process_results_recorded
  by (simp add: invoked_PipelineWorkflow [OF assms] activities_def)

theorem metadata_shared_by_all_steps_witness:
  "fClone mockAllActivitiesSuccess = Inr \<lparr>GitCloneResult.Metadata = \<lparr>Workdir = ''/tmp/test''\<rparr>\<rparr>
   \<and> invoked (fst (PipelineWorkflow mockAllActivitiesSuccess testParams)) =
       [GitClone \<lparr>GitCloneParams.Metadata = \<lparr>Workdir = ''''\<rparr>, GitCloneParams.Remote = gitUrl\<rparr>,
        GoTest \<lparr>GoTestParams.Metadata = \<lparr>Workdir = ''/tmp/test''\<rparr>, GoTestParams.Flags = []\<rparr>,
        GoFmt \<lparr>GoFmtParams.Metadata = \<lparr>Workdir = ''/tmp/test''\<rparr>\<rparr>,
        GoModTidy \<lparr>GoModTidyParams.Metadata = \<lparr>Workdir = ''/tmp/test''\<rparr>\<rparr>,
        GoBuild \<lparr>GoBuildParams.Metadata = \<lparr>Workdir = ''/tmp/test''\<rparr>, GoBuildParams.Flags = []\<rparr>,
        GoGenerate \<lparr>GoGenerateParams.Metadata = \<lparr>Workdir = ''/tmp/test''\<rparr>,
                    GoGenerateParams.Flags = []\<rparr>,
        GolangCILint \<lparr>GolangCILintParams.Metadata = \<lparr>Workdir = ''/tmp/test''\<rparr>\<rparr>,
        GoDeploy \<lparr>GoDeployParams.Metadata = \<lparr>Workdir = ''/tmp/test''\<rparr>\<rparr>,
        DeleteWorkdir \<lparr>DeleteWorkdirParams.Metadata = \<lparr>Workdir = ''/tmp/test''\<rparr>\<rparr>]"
proof -
  have h: "fClone mockAllActivitiesSuccess =
             Inr \<lparr>GitCloneResult.Metadata = \<lparr>Workdir = ''/tmp/test''\<rparr>\<rparr>"
    by (simp add: mockAllActivitiesSuccess_def)
  have p: "process_results mockAllActivitiesSuccess (activities \<lparr>Workdir = ''/tmp/test''\<rparr> testParams)
        \<lparr>Failures = []\<rparr> = \<lparr>Failures = []\<rparr>"
    by (simp add: activities_def process_result_def mockAllActivitiesSuccess_def)
  have t: "GitURL testParams = gitUrl" "TestFlags testParams = []" "BuildFlags testParams = []"
    "GenerateFlags testParams = []"
    by (simp_all add: testParams_def)
  show ?thesis
    using h metadata_shared_by_all_steps [OF h, of testParams]
    by (simp add: p hasErrors_Nil fDeploy_mockAllActivitiesSuccess t)
qed

text \<open>
  C5. When at least one fan-out step reports a failure whose details are not empty (its
  handle resolved with an error of non-empty message, or its result lists at least one
  failed test, failed file or lint issue), the deploy step is never invoked.
\<close>

theorem nonempty_failure_blocks_deploy:
  assumes "name \<in> set issue_order"
    and "failed env name"
    and "\<not> no_real_failure (details_payload env name)"
  shows "deploy_count (fst (PipelineWorkflow env params)) = 0"
proof (cases "fClone env")
  case (Inl err)
  then show ?thesis
    by (simp add: PipelineWorkflow_Inl deploy_count_def)
next
  case (Inr rClone)
  from assms have "hasErrors \<lparr>Failures = recorded env\<rparr>"
    unfolding hasErrors_recorded by blast
  then show ?thesis
    by (simp add: invoked_PipelineWorkflow [OF Inr] deploy_count_def activities_def)
qed

theorem nonempty_failure_blocks_deploy_witness:
  "''GoBuild'' \<in> set issue_order
   \<and> failed mockActivitiesWithFailures ''GoBuild''
   \<and> details_payload mockActivitiesWithFailures ''GoBuild'' = AnySlice (Some [AnyString ''main.go''])
   \<and> deploy_count (fst (PipelineWorkflow mockActivitiesWithFailures testParams)) = 0"
proof -
  have n: "''GoBuild'' \<in> set issue_order"
    by (simp add: issue_order_def)
  have o: "step_outcome mockActivitiesWithFailures ''GoBuild'' = Inr [AnyString ''main.go'']"
    by (simp add: step_outcome_def mockActivitiesWithFailures_def mockAllActivitiesSuccess_def)
  have f: "failed mockActivitiesWithFailures ''GoBuild''"
    by (simp add: failed_def o)
  have d: "details_payload mockActivitiesWithFailures ''GoBuild'' = AnySlice (Some [AnyString ''main.go''])"
    by (simp add: details_payload_def o)
  have r: "\<not> no_real_failure (details_payload mockActivitiesWithFailures ''GoBuild'')"
    by (simp add: d no_real_failure_def)
  show ?thesis
    using n f d nonempty_failure_blocks_deploy [OF n f r, of testParams]
    by simp
qed

text \<open>
  C2. In every run that reaches the gating decision, that is, whose clone succeeded, the
  deploy step is invoked if and only if no failure is left in the recorded list once the
  failures with empty details (a nil, an empty string, a nil or empty slice) are taken
  out; it is invoked at most once. The details recorded by then are strings and non-empty
  slices only, so no other kind of empty payload can be in the list.
\<close>

theorem deploy_iff_no_real_failure:
  assumes "fClone env = Inr rClone"
  shows "(deploy_count (fst (PipelineWorkflow env params)) > 0 \<longleftrightarrow>
            filter (\<lambda>f. \<not> no_real_failure (Details f))
              (Failures (process_results env (activities (GitCloneResult.Metadata rClone) params)
                           \<lparr>Failures = []\<rparr>)) = [])
     \<and> deploy_count (fst (PipelineWorkflow env params)) \<le> 1
     \<and> (\<forall>f \<in> set (Failures (process_results env
                      (activities (GitCloneResult.Metadata rClone) params) \<lparr>Failures = []\<rparr>)).
           (\<exists>s. Details f = AnyString s)
           \<or> (\<exists>xs. xs \<noteq> [] \<and> Details f = AnySlice (Some xs)))"
proof -
  have gate: "hasErrors \<lparr>Failures = recorded env\<rparr> \<longleftrightarrow>
          filter (\<lambda>f. \<not> no_real_failure (Details f)) (recorded env) \<noteq> []"
    by (simp add: hasErrors_filter)
  have count: "deploy_count (fst (PipelineWorkflow env params)) =
          (if hasErrors \<lparr>Failures = recorded env\<rparr> then 0 else 1)"
    by (rule deploy_count_PipelineWorkflow [OF assms])
  show ?thesis
    unfolding count process_results_recorded using gate recorded_details [of _ env] by simp
qed

theorem deploy_iff_no_real_failure_witness:
  "fClone mockAllActivitiesSuccess = Inr \<lparr>GitCloneResult.Metadata = \<lparr>Workdir = ''/tmp/test''\<rparr>\<rparr>
   \<and> process_results mockAllActivitiesSuccess (activities \<lparr>Workdir = ''/tmp/test''\<rparr> testParams)
        \<lparr>Failures = []\<rparr> = \<lparr>Failures = []\<rparr>
   \<and> deploy_count (fst (PipelineWorkflow mockAllActivitiesSuccess testParams)) = 1
   \<and> fClone mockActivitiesWithFailures = Inr \<lparr>GitCloneResult.Metadata = \<lparr>Workdir = ''/tmp/test''\<rparr>\<rparr>
   \<and> filter (\<lambda>f. \<not> no_real_failure (Details f))
        (Failures (process_results mockActivitiesWithFailures
           (activities \<lparr>Workdir = ''/tmp/test''\<rparr> testParams) \<lparr>Failures = []\<rparr>))
       = [\<lparr>Activity = ''GoTest'',
            Details = AnySlice (Some [AnyStruct [(''Action'', AnyString ''''), (''Package'', AnyString ''''),
                        (''Test'', AnyString ''TestFailed''), (''Elapsed'', AnyFloat64 0)]])\<rparr>,
          \<lparr>Activity = ''GoBuild'', Details = AnySlice (Some [AnyString ''main.go''])\<rparr>,
          \<lparr>Activity = ''GoGenerate'', Details = AnySlice (Some [AnyString ''generated.go''])\<rparr>]
   \<and> deploy_count (fst (PipelineWorkflow mockActivitiesWithFailures testParams)) = 0"
proof -
  have h: "fClone mockAllActivitiesSuccess =
             Inr \<lparr>GitCloneResult.Metadata = \<lparr>Workdir = ''/tmp/test''\<rparr>\<rparr>"
    by (simp add: mockAllActivitiesSuccess_def)
  have p: "process_results mockAllActivitiesSuccess (activities \<lparr>Workdir = ''/tmp/test''\<rparr> testParams)
        \<lparr>Failures = []\<rparr> = \<lparr>Failures = []\<rparr>"
    by (simp add: activities_def process_result_def mockAllActivitiesSuccess_def)
  have h': "fClone mockActivitiesWithFailures =
             Inr \<lparr>GitCloneResult.Metadata = \<lparr>Workdir = ''/tmp/test''\<rparr>\<rparr>"
    by (simp add: mockActivitiesWithFailures_def mockAllActivitiesSuccess_def)
  have p': "Failures (process_results mockActivitiesWithFailures
           (activities \<lparr>Workdir = ''/tmp/test''\<rparr> testParams) \<lparr>Failures = []\<rparr>)
       = [\<lparr>Activity = ''GoTest'',
            Details = AnySlice (Some [AnyStruct [(''Action'', AnyString ''''), (''Package'', AnyString ''''),
                        (''Test'', AnyString ''TestFailed''), (''Elapsed'', AnyFloat64 0)]])\<rparr>,
          \<lparr>Activity = ''GoBuild'', Details = AnySlice (Some [AnyString ''main.go''])\<rparr>,
          \<lparr>Activity = ''GoGenerate'', Details = AnySlice (Some [AnyString ''generated.go''])\<rparr>]"
    by (simp add: activities_def process_result_def append_failure_def any_tests_def any_strings_def
        any_GoTestCLIOutput_def mockActivitiesWithFailures_def mockAllActivitiesSuccess_def)
  have f: "filter (\<lambda>f. \<not> no_real_failure (Details f))
        (Failures (process_results mockActivitiesWithFailures
           (activities \<lparr>Workdir = ''/tmp/test''\<rparr> testParams) \<lparr>Failures = []\<rparr>))
       = Failures (process_results mockActivitiesWithFailures
           (activities \<lparr>Workdir = ''/tmp/test''\<rparr> testParams) \<lparr>Failures = []\<rparr>)"
    unfolding p' by (simp add: no_real_failure_def)
  have z: "deploy_count (fst (PipelineWorkflow mockActivitiesWithFailures testParams)) = 0"
    using deploy_iff_no_real_failure [OF h', of testParams] f p' by simp
  have o: "deploy_count (fst (PipelineWorkflow mockAllActivitiesSuccess testParams)) = 1"
    using deploy_iff_no_real_failure [OF h, of testParams] p by simp
  show ?thesis
    using h p o h' z f p' by simp
qed

text \<open>
  C8. When the handle of a fan-out step resolves with an error, the run does not abort:
  the failure list holds exactly one entry for that step, whose details are the message of
  the error; every sibling is classified as its own outcome says; the run reaches the
  gating decision (the deploy step or the clean-up is issued, the deploy step exactly when
  the recorded list has no real failure); and when the recorded failures block the
  deployment and the clean-up succeeds, the workflow returns the report.
\<close>

theorem fanout_error_is_recorded:
  assumes "fClone env = Inr rClone"
    and "name \<in> set issue_order"
    and "step_outcome env name = Inl err"
  shows "filter (\<lambda>f. Activity f = name)
           (Failures (process_results env (activities (GitCloneResult.Metadata rClone) params)
                        \<lparr>Failures = []\<rparr>))
           = [\<lparr>Activity = name, Details = AnyString (Error_text err)\<rparr>]
     \<and> (\<forall>n \<in> set issue_order. n \<noteq> name \<longrightarrow>
           filter (\<lambda>f. Activity f = n)
             (Failures (process_results env (activities (GitCloneResult.Metadata rClone) params)
                          \<lparr>Failures = []\<rparr>))
             = (if failed env n then [failure_of env n] else []))
     \<and> deploy_count (fst (PipelineWorkflow env params))
         + cleanup_count (fst (PipelineWorkflow env params)) > 0
     \<and> (deploy_count (fst (PipelineWorkflow env params)) > 0 \<longleftrightarrow>
           \<not> hasErrors (process_results env (activities (GitCloneResult.Metadata rClone) params)
                           \<lparr>Failures = []\<rparr>))
     \<and> (hasErrors (process_results env (activities (GitCloneResult.Metadata rClone) params)
                      \<lparr>Failures = []\<rparr>) \<and> fCleanup env = None \<longrightarrow>
           snd (PipelineWorkflow env params) =
             Some (Inr (process_results env (activities (GitCloneResult.Metadata rClone) params)
                          \<lparr>Failures = []\<rparr>)))"
proof -
  have f: "failed env name"
    using assms(3) by (simp add: failed_def)
  have e: "failure_of env name = \<lparr>Activity = name, Details = AnyString (Error_text err)\<rparr>"
    using assms(3) by (simp add: failure_of_def details_payload_def)
  have own: "filter (\<lambda>f. Activity f = name) (recorded env)
               = [\<lparr>Activity = name, Details = AnyString (Error_text err)\<rparr>]"
    using assms(2) f e by (simp add: filter_recorded)
  have sib: "\<forall>n \<in> set issue_order. n \<noteq> name \<longrightarrow>
           filter (\<lambda>f. Activity f = n) (recorded env)
             = (if failed env n then [failure_of env n] else [])"
    by (simp add: filter_recorded)
  have gate: "deploy_count (fst (PipelineWorkflow env params))
         + cleanup_count (fst (PipelineWorkflow env params)) > 0"
    by (simp add: deploy_count_PipelineWorkflow [OF assms(1)]
        cleanup_count_PipelineWorkflow [OF assms(1)])
  have dep: "deploy_count (fst (PipelineWorkflow env params)) > 0 \<longleftrightarrow>
           \<not> hasErrors \<lparr>Failures = recorded env\<rparr>"
    by (simp add: deploy_count_PipelineWorkflow [OF assms(1)])
  have ret: "hasErrors \<lparr>Failures = recorded env\<rparr> \<and> fCleanup env = None \<longrightarrow>
           snd (PipelineWorkflow env params) = Some (Inr \<lparr>Failures = recorded env\<rparr>)"
    by (simp add: returned_PipelineWorkflow [OF assms(1)])
  show ?thesis
    unfolding process_results_recorded
    using own sib gate dep ret by simp
qed

theorem fanout_error_is_recorded_witness:
  "fClone (mockAllActivitiesSuccess\<lparr>fGoBuild := Inl (errors_New ''activity timeout'')\<rparr>)
     = Inr \<lparr>GitCloneResult.Metadata = \<lparr>Workdir = ''/tmp/test''\<rparr>\<rparr>
   \<and> ''GoBuild'' \<in> set issue_order
   \<and> step_outcome (mockAllActivitiesSuccess\<lparr>fGoBuild := Inl (errors_New ''activity timeout'')\<rparr>)
        ''GoBuild'' = Inl (errors_New ''activity timeout'')
   \<and> filter (\<lambda>f. Activity f = ''GoBuild'')
        (Failures (process_results
           (mockAllActivitiesSuccess\<lparr>fGoBuild := Inl (errors_New ''activity timeout'')\<rparr>)
           (activities \<lparr>Workdir = ''/tmp/test''\<rparr> testParams) \<lparr>Failures = []\<rparr>))
        = [\<lparr>Activity = ''GoBuild'', Details = AnyString ''activity timeout''\<rparr>]"
proof -
  let ?env = "mockAllActivitiesSuccess\<lparr>fGoBuild := Inl (errors_New ''activity timeout'')\<rparr>"
  have c: "fClone ?env = Inr \<lparr>GitCloneResult.Metadata = \<lparr>Workdir = ''/tmp/test''\<rparr>\<rparr>"
    by (simp add: mockAllActivitiesSuccess_def)
  have n: "''GoBuild'' \<in> set issue_order"
    by (simp add: issue_order_def)
  have o: "step_outcome ?env ''GoBuild'' = Inl (errors_New ''activity timeout'')"
    by (simp add: step_outcome_def)
  show ?thesis
    using c n o fanout_error_is_recorded [OF c n o, of testParams]
    by simp
qed

text \<open>
  C1. For every assignment of outcomes to the six fan-out steps, the entries of the
  returned report are, in this order, the entries of the steps that failed, taken in the
  fixed issue order (GoTest, GoFmt, GoModTidy, GoBuild, GoGenerate, GolangCILint); and
  the same report is returned whatever the order in which the handles of the steps
  resolve. A deploy result never adds an entry: a result that carries an error does not
  come through the decoding of its handle.
\<close>

theorem report_in_issue_order:
  assumes "snd (PipelineWorkflow env params) = Some (Inr report)"
  shows "map Activity (Failures report) = filter (failed env) issue_order
     \<and> Failures report = map (failure_of env) (filter (failed env) issue_order)
     \<and> snd (PipelineWorkflow (env\<lparr>ready := rdy\<rparr>) params) = Some (Inr report)"
proof -
  from report_PipelineWorkflow [OF assms] have fs: "Failures report = recorded env"
    by simp
  then have "map Activity (Failures report) = filter (failed env) issue_order"
    by (simp add: names_recorded)
  with fs assms show ?thesis
    by (simp add: snd_PipelineWorkflow_ready recorded_def)
qed

theorem report_in_issue_order_witness:
  "snd (PipelineWorkflow mockActivitiesWithFailures testParams) =
     Some (Inr \<lparr>Failures =
       [\<lparr>Activity = ''GoTest'',
          Details = AnySlice (Some [AnyStruct [(''Action'', AnyString ''''), (''Package'', AnyString ''''),
                      (''Test'', AnyString ''TestFailed''), (''Elapsed'', AnyFloat64 0)]])\<rparr>,
        \<lparr>Activity = ''GoBuild'', Details = AnySlice (Some [AnyString ''main.go''])\<rparr>,
        \<lparr>Activity = ''GoGenerate'', Details = AnySlice (Some [AnyString ''generated.go''])\<rparr>]\<rparr>)
   \<and> filter (failed mockActivitiesWithFailures) issue_order = [''GoTest'', ''GoBuild'', ''GoGenerate'']
   \<and> snd (PipelineWorkflow (mockActivitiesWithFailures\<lparr>ready := (\<lambda>i. 5 - i)\<rparr>) testParams) =
       snd (PipelineWorkflow mockActivitiesWithFailures testParams)"
proof -
  let ?report = "\<lparr>Failures =
       [\<lparr>Activity = ''GoTest'',
          Details = AnySlice (Some [AnyStruct [(''Action'', AnyString ''''), (''Package'', AnyString ''''),
                      (''Test'', AnyString ''TestFailed''), (''Elapsed'', AnyFloat64 0)]])\<rparr>,
        \<lparr>Activity = ''GoBuild'', Details = AnySlice (Some [AnyString ''main.go''])\<rparr>,
        \<lparr>Activity = ''GoGenerate'', Details = AnySlice (Some [AnyString ''generated.go''])\<rparr>]\<rparr>"
  have c: "fClone mockActivitiesWithFailures =
             Inr \<lparr>GitCloneResult.Metadata = \<lparr>Workdir = ''/tmp/test''\<rparr>\<rparr>"
    by (simp add: mockActivitiesWithFailures_def mockAllActivitiesSuccess_def)
  have r: "recorded mockActivitiesWithFailures = Failures ?report"
    by (simp add: recorded_def issue_order_def failed_def failure_of_def details_payload_def
        step_outcome_def mockActivitiesWithFailures_def mockAllActivitiesSuccess_def
        any_GoTestCLIOutput_def)
  have h: "hasErrors \<lparr>Failures = recorded mockActivitiesWithFailures\<rparr>"
    unfolding r by (simp add: hasErrors_def isEmptyOrNil_iff no_real_failure_def)
  have k: "fCleanup mockActivitiesWithFailures = None"
    by (simp add: mockActivitiesWithFailures_def mockAllActivitiesSuccess_def)
  have ret: "snd (PipelineWorkflow mockActivitiesWithFailures testParams) = Some (Inr ?report)"
    unfolding returned_PipelineWorkflow [OF c] using h k by (simp add: r)
  show ?thesis
    using ret report_in_issue_order [OF ret, of "\<lambda>i. 5 - i"]
    by simp
qed




text \<open>
  C4. In every run in which the clone succeeds and all six fan-out steps pass (no handle
  error, no failed test, failed file or lint issue), the deploy step is invoked exactly
  once and a report the workflow returns is empty; it returns the empty report whenever
  the deploy and clean-up handles resolve without error.
\<close>

theorem all_pass_deploys_once:
  assumes "fClone env = Inr rClone"
    and "\<forall>name \<in> set issue_order. \<not> failed env name"
  shows "deploy_count (fst (PipelineWorkflow env params)) = 1
     \<and> (snd (PipelineWorkflow env params) = Some (Inr report) \<longrightarrow> Failures report = [])
     \<and> (\<not> isl (fDeploy env) \<and> fCleanup env = None \<longrightarrow>
          snd (PipelineWorkflow env params) = Some (Inr \<lparr>Failures = []\<rparr>))"
proof -
  from assms(2) have r: "recorded env = []"
    by (simp add: recorded_def filter_empty_conv)
  have h: "\<not> hasErrors \<lparr>Failures = recorded env\<rparr>"
    by (simp add: r hasErrors_Nil)
  have one: "deploy_count (fst (PipelineWorkflow env params)) = 1"
    by (simp add: deploy_count_PipelineWorkflow [OF assms(1)] h)
  have emp: "Failures report = []"
    if "snd (PipelineWorkflow env params) = Some (Inr report)"
    using report_PipelineWorkflow [OF that] by (simp add: r)
  have ret: "snd (PipelineWorkflow env params) = Some (Inr \<lparr>Failures = []\<rparr>)"
    if "\<not> isl (fDeploy env)" "fCleanup env = None"
    unfolding returned_PipelineWorkflow [OF assms(1)] using that by (simp add: r)
  from one emp ret show ?thesis by blast
qed

theorem all_pass_deploys_once_witness:
  "fClone mockAllActivitiesSuccess = Inr \<lparr>GitCloneResult.Metadata = \<lparr>Workdir = ''/tmp/test''\<rparr>\<rparr>
   \<and> filter (failed mockAllActivitiesSuccess) issue_order = []
   \<and> deploy_count (fst (PipelineWorkflow mockAllActivitiesSuccess testParams)) = 1
   \<and> snd (PipelineWorkflow mockAllActivitiesSuccess testParams) = Some (Inr \<lparr>Failures = []\<rparr>)"
proof -
  have c: "fClone mockAllActivitiesSuccess =
             Inr \<lparr>GitCloneResult.Metadata = \<lparr>Workdir = ''/tmp/test''\<rparr>\<rparr>"
    by (simp add: mockAllActivitiesSuccess_def)
  have p: "\<forall>name \<in> set issue_order. \<not> failed mockAllActivitiesSuccess name"
    using failed_mockAllActivitiesSuccess [of _ "GoDeploy_returns mockAllActivitiesSuccess"] by simp
  have k: "fCleanup mockAllActivitiesSuccess = None"
    by (simp add: mockAllActivitiesSuccess_def)
  show ?thesis
    using c p k all_pass_deploys_once [OF c p, of testParams]
    by (simp add: filter_empty_conv fDeploy_mockAllActivitiesSuccess)
qed

text \<open>
  C6 (as stated). After a successful clone the clean-up would be invoked however the
  deploy step resolved. It is not when every fan-out step passes and the deploy handle
  resolves with an error: the workflow returns that error at once and
  \<^verbatim>\<open>DeleteWorkdir\<close> is never issued.
\<close>

theorem cleanup_skipped_counterexample:
  "fClone (mockAllActivitiesSuccess\<lparr>GoDeploy_returns := Inl (errors_New ''activity StartToClose timeout'')\<rparr>)
     = Inr \<lparr>GitCloneResult.Metadata = \<lparr>Workdir = ''/tmp/test''\<rparr>\<rparr>
   \<and> deploy_count (fst (PipelineWorkflow
         (mockAllActivitiesSuccess\<lparr>GoDeploy_returns := Inl (errors_New ''activity StartToClose timeout'')\<rparr>)
         testParams)) = 1
   \<and> cleanup_count (fst (PipelineWorkflow
         (mockAllActivitiesSuccess\<lparr>GoDeploy_returns := Inl (errors_New ''activity StartToClose timeout'')\<rparr>)
         testParams)) = 0
   \<and> snd (PipelineWorkflow
         (mockAllActivitiesSuccess\<lparr>GoDeploy_returns := Inl (errors_New ''activity StartToClose timeout'')\<rparr>)
         testParams)
       = Some (Inl (errors_New ''deploy activity: activity StartToClose timeout''))"
  by (simp add: returned_PipelineWorkflow [OF fClone_mockAllActivitiesSuccess]
      deploy_count_PipelineWorkflow [OF fClone_mockAllActivitiesSuccess]
      cleanup_count_PipelineWorkflow [OF fClone_mockAllActivitiesSuccess]
      fClone_mockAllActivitiesSuccess recorded_mockAllActivitiesSuccess hasErrors_Nil
      Errorf_w_def fDeploy_def)

text \<open>
  C6 (amended). In every run in which the clone succeeds, the clean-up is invoked exactly
  once, as the last activity of the run and with the metadata of the clone result,
  whatever the report holds and whether or not the deploy step ran or reported a failure
  in its result, unless the deploy step was invoked and its handle resolved with an
  error: then the workflow returns that error and the clean-up is not invoked.
\<close>

theorem cleanup_after_deploy_decision:
  assumes "fClone env = Inr rClone"
  shows "(if deploy_count (fst (PipelineWorkflow env params)) > 0 \<and> isl (fDeploy env)
          then cleanup_count (fst (PipelineWorkflow env params)) = 0
            \<and> snd (PipelineWorkflow env params)
                = Some (Inl (Errorf_w ''deploy activity: '' (projl (fDeploy env))))
          else cleanup_count (fst (PipelineWorkflow env params)) = 1
            \<and> last (invoked (fst (PipelineWorkflow env params)))
                = DeleteWorkdir \<lparr>DeleteWorkdirParams.Metadata = GitCloneResult.Metadata rClone\<rparr>)"
proof (cases "hasErrors \<lparr>Failures = recorded env\<rparr> \<or> \<not> isl (fDeploy env)")
  case True
  then show ?thesis
    using last_invoked_PipelineWorkflow [OF assms True, of params]
    by (auto simp: deploy_count_PipelineWorkflow [OF assms]
        cleanup_count_PipelineWorkflow [OF assms])
next
  case False
  then show ?thesis
    by (simp add: deploy_count_PipelineWorkflow [OF assms]
        cleanup_count_PipelineWorkflow [OF assms] returned_PipelineWorkflow [OF assms])
qed

theorem cleanup_after_deploy_decision_witness:
  "fClone mockActivitiesWithFailures = Inr \<lparr>GitCloneResult.Metadata = \<lparr>Workdir = ''/tmp/test''\<rparr>\<rparr>
   \<and> deploy_count (fst (PipelineWorkflow mockActivitiesWithFailures testParams)) = 0
   \<and> cleanup_count (fst (PipelineWorkflow mockActivitiesWithFailures testParams)) = 1
   \<and> last (invoked (fst (PipelineWorkflow mockActivitiesWithFailures testParams)))
       = DeleteWorkdir \<lparr>DeleteWorkdirParams.Metadata = \<lparr>Workdir = ''/tmp/test''\<rparr>\<rparr>"
proof -
  have c: "fClone mockActivitiesWithFailures =
             Inr \<lparr>GitCloneResult.Metadata = \<lparr>Workdir = ''/tmp/test''\<rparr>\<rparr>"
    by (simp add: mockActivitiesWithFailures_def mockAllActivitiesSuccess_def)
  have n: "''GoBuild'' \<in> set issue_order"
    by (simp add: issue_order_def)
  have o: "step_outcome mockActivitiesWithFailures ''GoBuild'' = Inr [AnyString ''main.go'']"
    by (simp add: step_outcome_def mockActivitiesWithFailures_def mockAllActivitiesSuccess_def)
  have "failed mockActivitiesWithFailures ''GoBuild''
        \<and> \<not> no_real_failure (details_payload mockActivitiesWithFailures ''GoBuild'')"
    by (simp add: failed_def details_payload_def o no_real_failure_def)
  with n have h: "hasErrors \<lparr>Failures = recorded mockActivitiesWithFailures\<rparr>"
    unfolding hasErrors_recorded by blast
  have z: "deploy_count (fst (PipelineWorkflow mockActivitiesWithFailures testParams)) = 0"
    by (simp add: deploy_count_PipelineWorkflow [OF c] h)
  show ?thesis
    using c z cleanup_after_deploy_decision [OF c, of testParams]
    by simp
qed

end
